theory Spec2Isabelle
  imports Main "HOL-Library.Word" "HOL-Library.Sublist"
begin

section \<open>Python values and exceptions\<close>

text \<open>
  \<^verbatim>\<open>serialize_report.py\<close> is dynamically typed: what \<^verbatim>\<open>pickle.loads\<close> returns
  is an arbitrary object, and the checks of \<^verbatim>\<open>loads\<close> are \<^verbatim>\<open>isinstance\<close> tests
  on it. The values of the model are the built-in values the file can meet, instances
  of the two classes it imports (\<^verbatim>\<open>Config\<close>, \<^verbatim>\<open>Root\<close>), and \<open>PObject cls\<close>, an
  instance of any other class, given by the name of its class (a class that derives
  from none of \<^verbatim>\<open>str\<close>, \<^verbatim>\<open>dict\<close>, \<^verbatim>\<open>Config\<close>, \<^verbatim>\<open>Root\<close>). A \<^verbatim>\<open>dict\<close> is an
  association list in insertion order, looked up from the front.
\<close>

type_synonym bytes = "8 word list"

datatype ('cfg, 'root) pyval =
    PNone
  | PBool bool
  | PInt int
  | PStr string
  | PBytes bytes
  | PList "('cfg, 'root) pyval list"
  | PTuple "('cfg, 'root) pyval list"
  | PDict "(('cfg, 'root) pyval \<times> ('cfg, 'root) pyval) list"
  | PConfig 'cfg
  | PRoot 'root
  | PObject string

text \<open>
  Exceptions are values. Every class below derives from \<^verbatim>\<open>Exception\<close>, which is what
  the handler \<^verbatim>\<open>except Exception as e\<close> of \<^verbatim>\<open>loads\<close> catches. \<open>OtherException cls msg\<close>
  is an exception of any other such class (\<^verbatim>\<open>UnpicklingError\<close>, \<^verbatim>\<open>EOFError\<close>, ...).
\<close>

datatype py_error =
    ValueError string
  | TypeError string
  | KeyError string
  | FileNotFoundError string
  | OtherException string string

text \<open>\<^verbatim>\<open>repr\<close> of a string without quotes or escapes in it.\<close>

definition quoted :: "string \<Rightarrow> string" where
  "quoted s = [CHR 0x27] @ s @ [CHR 0x27]"

text \<open>\<^verbatim>\<open>str(e)\<close>, which is what \<^verbatim>\<open>f"{e}"\<close> formats: a \<^verbatim>\<open>KeyError\<close> shows the \<^verbatim>\<open>repr\<close> of its key.\<close>

fun exc_str :: "py_error \<Rightarrow> string" where
  "exc_str (ValueError m) = m"
| "exc_str (TypeError m) = m"
| "exc_str (KeyError k) = quoted k"
| "exc_str (FileNotFoundError m) = m"
| "exc_str (OtherException cls m) = m"

text \<open>A call either returns or raises; both leave a state behind.\<close>

datatype 'w outcome = Returned 'w | Raised py_error 'w

fun state_of :: "'w outcome \<Rightarrow> 'w" where
  "state_of (Returned w) = w"
| "state_of (Raised e w) = w"

section \<open>What the file imports\<close>

text \<open>
  The codec (\<^verbatim>\<open>dill\<close>), the class \<^verbatim>\<open>Config\<close> with its \<^verbatim>\<open>is_default\<close> and \<^verbatim>\<open>update\<close>,
  and \<^verbatim>\<open>__version__\<close> are imported by the file and are parameters of the model. So are
  the protocols of objects that are no built-in values: iterating them, subscripting
  them with a string, and formatting them in an f-string.

  The file system belongs to the operating system and is a parameter too: \<open>'fs\<close> is
  the state of the files, \<open>write_bytes\<close> is \<^verbatim>\<open>Path.write_bytes\<close> on the string of a path,
  which returns or raises (a missing parent directory, a directory in the place of the
  file, a missing permission) and leaves a state of the files either way, and
  \<open>read_bytes\<close> is \<^verbatim>\<open>Path.read_bytes\<close>, which gives the bytes or raises.
\<close>

record ('cfg, 'root, 'fs) externals =
  pickle_dumps :: "('cfg, 'root) pyval \<Rightarrow> py_error + bytes"
  pickle_loads :: "bytes \<Rightarrow> py_error + ('cfg, 'root) pyval"
  is_default :: "'cfg \<Rightarrow> bool"
  update :: "'cfg \<Rightarrow> ('cfg, 'root) pyval \<Rightarrow> 'cfg"
  version :: string
  obj_iter :: "('cfg, 'root) pyval \<Rightarrow> py_error + ('cfg, 'root) pyval list"
  obj_getitem :: "('cfg, 'root) pyval \<Rightarrow> string \<Rightarrow> py_error + ('cfg, 'root) pyval"
  obj_format :: "('cfg, 'root) pyval \<Rightarrow> string"
  write_bytes :: "'fs \<Rightarrow> string \<Rightarrow> bytes \<Rightarrow> 'fs outcome"
  read_bytes :: "'fs \<Rightarrow> string \<Rightarrow> py_error + bytes"

section \<open>Built-in operations\<close>

fun isinstance_str :: "('cfg, 'root) pyval \<Rightarrow> bool" where
  "isinstance_str (PStr s) = True"
| "isinstance_str v = False"

fun isinstance_dict :: "('cfg, 'root) pyval \<Rightarrow> bool" where
  "isinstance_dict (PDict d) = True"
| "isinstance_dict v = False"

fun isinstance_Config :: "('cfg, 'root) pyval \<Rightarrow> bool" where
  "isinstance_Config (PConfig c) = True"
| "isinstance_Config v = False"

fun isinstance_Root :: "('cfg, 'root) pyval \<Rightarrow> bool" where
  "isinstance_Root (PRoot r) = True"
| "isinstance_Root v = False"

fun type_name :: "('cfg, 'root) pyval \<Rightarrow> string" where
  "type_name PNone = ''NoneType''"
| "type_name (PBool b) = ''bool''"
| "type_name (PInt i) = ''int''"
| "type_name (PStr s) = ''str''"
| "type_name (PBytes b) = ''bytes''"
| "type_name (PList xs) = ''list''"
| "type_name (PTuple xs) = ''tuple''"
| "type_name (PDict d) = ''dict''"
| "type_name (PConfig c) = ''Config''"
| "type_name (PRoot r) = ''Root''"
| "type_name (PObject cls) = cls"

text \<open>The items an unpacking assignment draws from its right-hand side.\<close>

fun py_iter ::
  "('cfg, 'root, 'fs) externals \<Rightarrow> ('cfg, 'root) pyval \<Rightarrow> py_error + ('cfg, 'root) pyval list"
where
  "py_iter E (PList xs) = Inr xs"
| "py_iter E (PTuple xs) = Inr xs"
| "py_iter E (PStr s) = Inr (map (\<lambda>c. PStr [c]) s)"
| "py_iter E (PBytes b) = Inr (map (\<lambda>w. PInt (uint w)) b)"
| "py_iter E (PDict d) = Inr (map fst d)"
| "py_iter E PNone = Inl (TypeError ''cannot unpack non-iterable NoneType object'')"
| "py_iter E (PBool b) = Inl (TypeError ''cannot unpack non-iterable bool object'')"
| "py_iter E (PInt i) = Inl (TypeError ''cannot unpack non-iterable int object'')"
| "py_iter E v = obj_iter E v"

fun show_nat :: "nat \<Rightarrow> string" where
  "show_nat n =
     (if n < 10 then [char_of (48 + n)]
      else show_nat (n div 10) @ [char_of (48 + n mod 10)])"

text \<open>
  \<^verbatim>\<open>(a, b, c, d, e) = v\<close>: five items exactly, or a \<^verbatim>\<open>ValueError\<close>; a \<^verbatim>\<open>TypeError\<close>
  when \<open>v\<close> is not iterable.
\<close>

definition unpack5 ::
  "('cfg, 'root, 'fs) externals \<Rightarrow> ('cfg, 'root) pyval \<Rightarrow>
   py_error + (('cfg, 'root) pyval \<times> ('cfg, 'root) pyval \<times> ('cfg, 'root) pyval \<times>
               ('cfg, 'root) pyval \<times> ('cfg, 'root) pyval)"
where
  "unpack5 E v =
     (case py_iter E v of
        Inl e \<Rightarrow> Inl e
      | Inr xs \<Rightarrow>
          (case xs of
             [a, b, c, d, e] \<Rightarrow> Inr (a, b, c, d, e)
           | _ \<Rightarrow>
               if length xs < 5
               then Inl (ValueError (''not enough values to unpack (expected 5, got ''
                                      @ show_nat (length xs) @ '')''))
               else Inl (ValueError ''too many values to unpack (expected 5)'')))"

text \<open>\<^verbatim>\<open>v[k]\<close> for a string \<open>k\<close>. A string key of a \<^verbatim>\<open>dict\<close> equals only the same string.\<close>

fun py_getitem ::
  "('cfg, 'root, 'fs) externals \<Rightarrow> ('cfg, 'root) pyval \<Rightarrow> string \<Rightarrow> py_error + ('cfg, 'root) pyval"
where
  "py_getitem E (PDict d) k =
     (case map_of d (PStr k) of Some x \<Rightarrow> Inr x | None \<Rightarrow> Inl (KeyError k))"
| "py_getitem E (PStr s) k = Inl (TypeError ''string indices must be integers'')"
| "py_getitem E (PBytes b) k =
     Inl (TypeError ''byte indices must be integers or slices, not str'')"
| "py_getitem E (PList xs) k =
     Inl (TypeError ''list indices must be integers or slices, not str'')"
| "py_getitem E (PTuple xs) k =
     Inl (TypeError ''tuple indices must be integers or slices, not str'')"
| "py_getitem E PNone k = Inl (TypeError (quoted ''NoneType'' @ '' object is not subscriptable''))"
| "py_getitem E (PBool b) k = Inl (TypeError (quoted ''bool'' @ '' object is not subscriptable''))"
| "py_getitem E (PInt i) k = Inl (TypeError (quoted ''int'' @ '' object is not subscriptable''))"
| "py_getitem E v k = obj_getitem E v k"

text \<open>A value formatted in an f-string: a string stands for itself.\<close>

fun py_format :: "('cfg, 'root, 'fs) externals \<Rightarrow> ('cfg, 'root) pyval \<Rightarrow> string" where
  "py_format E (PStr s) = s"
| "py_format E v = obj_format E v"

section \<open>The report and the state of the program\<close>

text \<open>
  The attributes of \<^verbatim>\<open>SerializeReport\<close>; \<open>priv_x\<close> is the attribute \<^verbatim>\<open>_x\<close>. The state of
  the program is the report \<^verbatim>\<open>self\<close>, the global \<^verbatim>\<open>config\<close>, the warnings issued so far
  (\<^verbatim>\<open>warnings.warn\<close> under the default filter: it records the message and returns), and
  the state of the files.
\<close>

record ('cfg, 'root) report =
  df_hash :: "('cfg, 'root) pyval"
  df :: "('cfg, 'root) pyval"
  priv_df_hash :: "('cfg, 'root) pyval"
  priv_report :: "('cfg, 'root) pyval"
  priv_description_set :: "('cfg, 'root) pyval"
  priv_title :: "('cfg, 'root) pyval"

record ('cfg, 'root, 'fs) world =
  self :: "('cfg, 'root) report"
  config :: 'cfg
  warnings :: "string list"
  files :: 'fs

definition warn :: "string \<Rightarrow> ('cfg, 'root, 'fs) world \<Rightarrow> ('cfg, 'root, 'fs) world" where
  "warn msg w = w\<lparr>warnings := warnings w @ [msg]\<rparr>"

section \<open>dumps and loads\<close>

definition dumps :: "('cfg, 'root, 'fs) externals \<Rightarrow> ('cfg, 'root, 'fs) world \<Rightarrow> py_error + bytes" where
  "dumps E w =
     pickle_dumps E
       (PList [df_hash (self w), PConfig (config w), priv_description_set (self w),
               priv_report (self w), priv_title (self w)])"

text \<open>Lines 53 to 62: decode and unpack, under one handler.\<close>

definition decode ::
  "('cfg, 'root, 'fs) externals \<Rightarrow> bytes \<Rightarrow>
   py_error + (('cfg, 'root) pyval \<times> ('cfg, 'root) pyval \<times> ('cfg, 'root) pyval \<times>
               ('cfg, 'root) pyval \<times> ('cfg, 'root) pyval)"
where
  "decode E data = (case pickle_loads E data of Inl e \<Rightarrow> Inl e | Inr v \<Rightarrow> unpack5 E v)"

text \<open>Lines 64 to 73: \<^verbatim>\<open>all\<close> over the tuple of the five checks.\<close>

definition shape_ok ::
  "('cfg, 'root) pyval \<Rightarrow> ('cfg, 'root) pyval \<Rightarrow> ('cfg, 'root) pyval \<Rightarrow>
   ('cfg, 'root) pyval \<Rightarrow> ('cfg, 'root) pyval \<Rightarrow> bool"
where
  "shape_ok df_hash' loaded_config loaded_description_set loaded_report loaded_title =
     list_all (\<lambda>b. b)
       [df_hash' = PNone \<or> isinstance_str df_hash',
        loaded_title = PNone \<or> isinstance_str loaded_title,
        isinstance_Config loaded_config,
        loaded_description_set = PNone \<or> isinstance_dict loaded_description_set,
        loaded_report = PNone \<or> isinstance_Root loaded_report]"

text \<open>Line 77: the test that lets the snapshot in.\<close>

definition compatible ::
  "('cfg, 'root, 'fs) externals \<Rightarrow> ('cfg, 'root) pyval \<Rightarrow> ('cfg, 'root, 'fs) world \<Rightarrow> bool"
where
  "compatible E df_hash' w =
     (df_hash' = df_hash (self w) \<or> (is_default E (config w) \<and> df (self w) = PNone))"

text \<open>\<^verbatim>\<open>loaded_description_set["package"]["pandas_profiling_version"]\<close>\<close>

definition version_marker ::
  "('cfg, 'root, 'fs) externals \<Rightarrow> ('cfg, 'root) pyval \<Rightarrow> py_error + ('cfg, 'root) pyval"
where
  "version_marker E loaded_description_set =
     (case py_getitem E loaded_description_set ''package'' of
        Inl e \<Rightarrow> Inl e
      | Inr package \<Rightarrow> py_getitem E package ''pandas_profiling_version'')"

definition description_set_warning :: string where
  "description_set_warning =
     ''The description set of current ProfileReport is not None. It won't be loaded.''"

definition report_warning :: string where
  "report_warning =
     ''The report of current ProfileReport is not None. It won't be loaded.''"

definition version_warning :: "string \<Rightarrow> string \<Rightarrow> string" where
  "version_warning running loaded =
     ''The package version specified in the loaded data is not equal to the version installed. ''
     @ ''Currently running on pandas-profiling '' @ running
     @ '' , while loaded data is generated by pandas_profiling, '' @ loaded @ ''.''"

text \<open>Lines 97 to 106: the version test, which subscripts the loaded description set.\<close>

definition version_check ::
  "('cfg, 'root, 'fs) externals \<Rightarrow> ('cfg, 'root) pyval \<Rightarrow> ('cfg, 'root, 'fs) world \<Rightarrow>
   py_error + ('cfg, 'root, 'fs) world"
where
  "version_check E loaded_description_set w =
     (if loaded_description_set = PNone then Inr w
      else case version_marker E loaded_description_set of
             Inl e \<Rightarrow> Inl e
           | Inr m \<Rightarrow>
               if m \<noteq> PStr (version E)
               then Inr (warn (version_warning (version E) (py_format E m)) w)
               else Inr w)"

definition loads ::
  "('cfg, 'root, 'fs) externals \<Rightarrow> bytes \<Rightarrow> bool \<Rightarrow> ('cfg, 'root, 'fs) world \<Rightarrow>
   ('cfg, 'root, 'fs) world outcome"
where
  "loads E data ignore_config w =
     (case decode E data of
        Inl e \<Rightarrow> Raised (ValueError (''Failed to load data: '' @ exc_str e)) w
      | Inr (df_hash', loaded_config, loaded_description_set, loaded_report, loaded_title) \<Rightarrow>
          if \<not> shape_ok df_hash' loaded_config loaded_description_set loaded_report loaded_title
          then Raised (ValueError
                 ''Failed to load data: file may be damaged or from an incompatible version'') w
          else if compatible E df_hash' w then
            let w1 = (if priv_description_set (self w) = PNone
                      then w\<lparr>self := (self w)\<lparr>priv_description_set := loaded_description_set\<rparr>\<rparr>
                      else warn description_set_warning w);
                w2 = (if priv_report (self w1) = PNone
                      then w1\<lparr>self := (self w1)\<lparr>priv_report := loaded_report\<rparr>\<rparr>
                      else warn report_warning w1);
                w3 = w2\<lparr>config := update E (config w2) loaded_config\<rparr>
            in case version_check E loaded_description_set w3 of
                 Inl e \<Rightarrow> Raised e w3
               | Inr w4 \<Rightarrow>
                   Returned (w4\<lparr>self := (self w4)\<lparr>priv_df_hash := df_hash',
                                                   priv_title := loaded_title\<rparr>\<rparr>)
          else Raised (ValueError ''DataFrame does not match with the current ProfileReport.'') w)"

section \<open>Paths\<close>

text \<open>
  \<^verbatim>\<open>pathlib\<close> with the POSIX flavour: a path is its root and its parts; the parts of a
  string are what stands between the separators, the empty ones and \<^verbatim>\<open>.\<close> left out.
\<close>

record ppath =
  path_root :: string
  path_parts :: "string list"

primrec split_sep :: "char \<Rightarrow> string \<Rightarrow> string list" where
  "split_sep sep [] = [[]]"
| "split_sep sep (c # cs) =
     (if c = sep then [] # split_sep sep cs
      else (case split_sep sep cs of [] \<Rightarrow> [[c]] | x # xs \<Rightarrow> (c # x) # xs))"

primrec join_sep :: "string \<Rightarrow> string list \<Rightarrow> string" where
  "join_sep sep [] = []"
| "join_sep sep (x # xs) = (if xs = [] then x else x @ sep @ join_sep sep xs)"

definition splitroot :: "string \<Rightarrow> string \<times> string" where
  "splitroot part =
     (if part \<noteq> [] \<and> hd part = CHR ''/'' then
        let stripped_part = dropWhile (\<lambda>c. c = CHR ''/'') part in
        if length part - length stripped_part = 2 then (''//'', stripped_part)
        else (''/'', stripped_part)
      else ([], part))"

definition Path :: "string \<Rightarrow> ppath" where
  "Path s =
     (case splitroot s of
        (root, rel) \<Rightarrow>
          \<lparr>path_root = root,
           path_parts = filter (\<lambda>x. x \<noteq> [] \<and> x \<noteq> ''.'') (split_sep CHR ''/'' rel)\<rparr>)"

definition path_str :: "ppath \<Rightarrow> string" where
  "path_str p =
     (if path_root p = [] \<and> path_parts p = [] then ''.''
      else path_root p @ join_sep ''/'' (path_parts p))"

definition path_name :: "ppath \<Rightarrow> string" where
  "path_name p = (if path_parts p = [] then [] else last (path_parts p))"

text \<open>\<^verbatim>\<open>s.rfind(c)\<close>: the index of the last \<open>c\<close>, or \<open>-1\<close>.\<close>

definition rfind :: "char \<Rightarrow> string \<Rightarrow> int" where
  "rfind c s =
     (if c \<in> set s then int (length s) - 1 - int (length (takeWhile (\<lambda>x. x \<noteq> c) (rev s)))
      else - 1)"

definition path_suffix :: "ppath \<Rightarrow> string" where
  "path_suffix p =
     (let name = path_name p; i = rfind CHR ''.'' name in
      if 0 < i \<and> i < int (length name) - 1 then drop (nat i) name else [])"

definition path_stem :: "ppath \<Rightarrow> string" where
  "path_stem p =
     (let name = path_name p; i = rfind CHR ''.'' name in
      if 0 < i \<and> i < int (length name) - 1 then take (nat i) name else name)"

definition path_repr :: "ppath \<Rightarrow> string" where
  "path_repr p = ''PosixPath('' @ quoted (path_str p) @ '')''"

definition with_suffix :: "ppath \<Rightarrow> string \<Rightarrow> py_error + ppath" where
  "with_suffix p sfx =
     (if CHR ''/'' \<in> set sfx then Inl (ValueError (''Invalid suffix '' @ quoted sfx))
      else if (sfx \<noteq> [] \<and> hd sfx \<noteq> CHR ''.'') \<or> sfx = ''.''
      then Inl (ValueError (''Invalid suffix '' @ quoted sfx))
      else
        let name = path_name p in
        if name = [] then Inl (ValueError (path_repr p @ '' has an empty name''))
        else
          let old_suffix = path_suffix p;
              name' = (if old_suffix = [] then name @ sfx
                       else take (length name - length old_suffix) name @ sfx)
          in Inr (p\<lparr>path_parts := butlast (path_parts p) @ [name']\<rparr>))"

section \<open>dump and load\<close>

text \<open>
  The argument is a string, or a \<^verbatim>\<open>Path\<close> given by its string (\<^verbatim>\<open>Path(str(p))\<close> is
  \<open>p\<close>). \<^verbatim>\<open>dump\<close> computes the path, then the bytes, then writes; an exception of any
  of the three leaves \<^verbatim>\<open>dump\<close>, and one of the write leaves the files as the write
  left them. \<^verbatim>\<open>load\<close> reads the path as it is given, with no suffix put on it.
\<close>

definition dump ::
  "('cfg, 'root, 'fs) externals \<Rightarrow> string \<Rightarrow> ('cfg, 'root, 'fs) world \<Rightarrow>
   ('cfg, 'root, 'fs) world outcome"
where
  "dump E output_file w =
     (case with_suffix (Path output_file) ''.pp'' of
        Inl e \<Rightarrow> Raised e w
      | Inr output_file' \<Rightarrow>
          (case dumps E w of
             Inl e \<Rightarrow> Raised e w
           | Inr b \<Rightarrow>
               (case write_bytes E (files w) (path_str output_file') b of
                  Returned fs \<Rightarrow> Returned (w\<lparr>files := fs\<rparr>)
                | Raised e fs \<Rightarrow> Raised e (w\<lparr>files := fs\<rparr>))))"

definition load ::
  "('cfg, 'root, 'fs) externals \<Rightarrow> string \<Rightarrow> bool \<Rightarrow> ('cfg, 'root, 'fs) world \<Rightarrow>
   ('cfg, 'root, 'fs) world outcome"
where
  "load E load_file ignore_config w =
     (case read_bytes E (files w) (path_str (Path load_file)) of
        Inl e \<Rightarrow> Raised e w
      | Inr data \<Rightarrow> loads E data ignore_config w)"

section \<open>A fresh report, and an environment to run the model on\<close>

text \<open>Lines 13 to 18: every attribute of a fresh \<^verbatim>\<open>SerializeReport\<close> is \<^verbatim>\<open>None\<close>.\<close>

definition init_report :: "('cfg, 'root) report" where
  "init_report =
     \<lparr>df_hash = PNone, df = PNone, priv_df_hash = PNone, priv_report = PNone,
      priv_description_set = PNone, priv_title = PNone\<rparr>"

text \<open>
  A codec given by a finite table of byte strings and the values they stand for;
  configurations and report trees are numbers, \<open>0\<close> the default configuration, and
  updating a configuration from a \<^verbatim>\<open>Config\<close> takes its settings. Objects that are no
  built-in values have no protocol but their class name. The files are a store from
  names to bytes in one directory that has no subdirectory: a path with a separator
  has no parent to be written in, and \<^verbatim>\<open>.\<close> is the directory itself.
\<close>

definition table_dumps ::
  "(bytes \<times> ('cfg, 'root) pyval) list \<Rightarrow> ('cfg, 'root) pyval \<Rightarrow> py_error + bytes"
where
  "table_dumps tbl v =
     (case find (\<lambda>bv. snd bv = v) tbl of
        Some bv \<Rightarrow> Inr (fst bv)
      | None \<Rightarrow> Inl (TypeError (''cannot pickle '' @ quoted (type_name v) @ '' object'')))"

definition table_loads ::
  "(bytes \<times> ('cfg, 'root) pyval) list \<Rightarrow> bytes \<Rightarrow> py_error + ('cfg, 'root) pyval"
where
  "table_loads tbl b =
     (case map_of tbl b of
        Some v \<Rightarrow> Inr v
      | None \<Rightarrow> Inl (OtherException ''UnpicklingError'' ''invalid load key''))"

fun take_config :: "nat \<Rightarrow> (nat, nat) pyval \<Rightarrow> nat" where
  "take_config c (PConfig c') = c'"
| "take_config c v = c"

definition no_iter :: "(nat, nat) pyval \<Rightarrow> py_error + (nat, nat) pyval list" where
  "no_iter v = Inl (TypeError (''cannot unpack non-iterable '' @ type_name v @ '' object''))"

definition no_getitem :: "(nat, nat) pyval \<Rightarrow> string \<Rightarrow> py_error + (nat, nat) pyval" where
  "no_getitem v k = Inl (TypeError (quoted (type_name v) @ '' object is not subscriptable''))"

definition example_write ::
  "(string \<Rightarrow> bytes option) \<Rightarrow> string \<Rightarrow> bytes \<Rightarrow> (string \<Rightarrow> bytes option) outcome"
where
  "example_write fs p b =
     (if CHR ''/'' \<in> set p
      then Raised (FileNotFoundError (''[Errno 2] No such file or directory: '' @ quoted p)) fs
      else if p = ''.''
      then Raised (OtherException ''IsADirectoryError''
                     (''[Errno 21] Is a directory: '' @ quoted p)) fs
      else Returned (fs(p \<mapsto> b)))"

definition example_read :: "(string \<Rightarrow> bytes option) \<Rightarrow> string \<Rightarrow> py_error + bytes" where
  "example_read fs p =
     (if p = ''.''
      then Inl (OtherException ''IsADirectoryError''
                  (''[Errno 21] Is a directory: '' @ quoted p))
      else case fs p of
             None \<Rightarrow> Inl (FileNotFoundError
                            (''[Errno 2] No such file or directory: '' @ quoted p))
           | Some b \<Rightarrow> Inr b)"

definition example_env ::
  "(bytes \<times> (nat, nat) pyval) list \<Rightarrow> string \<Rightarrow>
   (nat, nat, string \<Rightarrow> bytes option) externals"
where
  "example_env tbl ver =
     \<lparr>pickle_dumps = table_dumps tbl, pickle_loads = table_loads tbl,
      is_default = (=) 0, update = take_config, version = ver,
      obj_iter = no_iter, obj_getitem = no_getitem, obj_format = type_name,
      write_bytes = example_write, read_bytes = example_read\<rparr>"

definition example_world ::
  "(nat, nat) report \<Rightarrow> nat \<Rightarrow> (nat, nat, string \<Rightarrow> bytes option) world"
where
  "example_world r c = \<lparr>self = r, config = c, warnings = [], files = Map.empty\<rparr>"

text \<open>A description set as the analysis writes it, with the version that wrote it.\<close>

definition description_of :: "string \<Rightarrow> (nat, nat) pyval" where
  "description_of ver =
     PDict [(PStr ''table'', PDict [(PStr ''n'', PInt 3)]),
            (PStr ''package'', PDict [(PStr ''pandas_profiling_version'', PStr ver)])]"

section \<open>How loads runs\<close>

lemmas run_defs =
  loads_def dumps_def decode_def unpack5_def shape_ok_def compatible_def version_check_def
  version_marker_def warn_def example_env_def example_world_def init_report_def
  table_loads_def table_dumps_def description_of_def no_getitem_def no_iter_def


lemma decode_list5:
  "pickle_loads E data = Inr (PList [h, c, d, r, t]) \<Longrightarrow> decode E data = Inr (h, c, d, r, t)"
  by (simp add: decode_def unpack5_def)


text \<open>A snapshot that is let in and whose version test passes or warns.\<close>

lemma loads_compatible_returned:
  assumes "decode E data = Inr (h, c, d, r, t)" and "shape_ok h c d r t" and "compatible E h w"
    and "d = PNone \<or> version_marker E d = Inr m"
  shows "loads E data ignore_config w =
    Returned
      (w\<lparr>self := (self w)
            \<lparr>priv_description_set :=
               (if priv_description_set (self w) = PNone then d
                else priv_description_set (self w)),
             priv_report :=
               (if priv_report (self w) = PNone then r else priv_report (self w)),
             priv_df_hash := h, priv_title := t\<rparr>,
          config := update E (config w) c,
          warnings := warnings w
            @ (if priv_description_set (self w) = PNone then [] else [description_set_warning])
            @ (if priv_report (self w) = PNone then [] else [report_warning])
            @ (if d \<noteq> PNone \<and> m \<noteq> PStr (version E)
               then [version_warning (version E) (py_format E m)] else [])\<rparr>)"
  using assms
  by (cases "priv_description_set (self w) = PNone"; cases "priv_report (self w) = PNone";
      cases "d = PNone")
     (simp_all add: loads_def Let_def warn_def version_check_def)

section \<open>C1: the round trip\<close>

text \<open>
  The round trip for description sets that hold a version marker. Take a report whose
  \<^verbatim>\<open>df_hash\<close> and \<^verbatim>\<open>_title\<close> are \<^verbatim>\<open>None\<close> or strings, whose \<^verbatim>\<open>_report\<close> is \<^verbatim>\<open>None\<close> or a
  \<^verbatim>\<open>Root\<close>, and whose \<^verbatim>\<open>_description_set\<close> is \<^verbatim>\<open>None\<close> or a \<^verbatim>\<open>dict\<close> with a value under
  \<^verbatim>\<open>["package"]["pandas_profiling_version"]\<close>, and a codec that decodes what it
  encoded. If \<^verbatim>\<open>dumps\<close> returns bytes, then \<^verbatim>\<open>loads\<close> of these bytes into a fresh report, with
  a default configuration, returns, and the \<^verbatim>\<open>_df_hash\<close>, \<^verbatim>\<open>_title\<close>, \<^verbatim>\<open>_description_set\<close>
  and \<^verbatim>\<open>_report\<close> of the target are the \<^verbatim>\<open>df_hash\<close>, \<^verbatim>\<open>_title\<close>, \<^verbatim>\<open>_description_set\<close> and
  \<^verbatim>\<open>_report\<close> of the report that was dumped.
\<close>

lemma roundtrip_with_version_marker:
  assumes codec: "\<forall>v b. pickle_dumps E v = Inr b \<longrightarrow> pickle_loads E b = Inr v"
    and hash: "df_hash (self w) = PNone \<or> isinstance_str (df_hash (self w))"
    and title: "priv_title (self w) = PNone \<or> isinstance_str (priv_title (self w))"
    and report: "priv_report (self w) = PNone \<or> isinstance_Root (priv_report (self w))"
    and marker: "priv_description_set (self w) = PNone
                 \<or> (isinstance_dict (priv_description_set (self w))
                    \<and> (\<exists>m. version_marker E (priv_description_set (self w)) = Inr m))"
    and dumped: "dumps E w = Inr data"
    and fresh: "self target = init_report" and default: "is_default E (config target)"
  shows "\<exists>target'. loads E data ignore_config target = Returned target'
           \<and> priv_df_hash (self target') = df_hash (self w)
           \<and> priv_title (self target') = priv_title (self w)
           \<and> priv_description_set (self target') = priv_description_set (self w)
           \<and> priv_report (self target') = priv_report (self w)"
proof -
  from codec dumped
  have "pickle_loads E data =
          Inr (PList [df_hash (self w), PConfig (config w), priv_description_set (self w),
                      priv_report (self w), priv_title (self w)])"
    by (simp add: dumps_def)
  then have dec: "decode E data =
      Inr (df_hash (self w), PConfig (config w), priv_description_set (self w),
           priv_report (self w), priv_title (self w))"
    by (rule decode_list5)
  have shape: "shape_ok (df_hash (self w)) (PConfig (config w)) (priv_description_set (self w))
                 (priv_report (self w)) (priv_title (self w))"
    using hash title report marker by (auto simp: shape_ok_def)
  have compat: "compatible E (df_hash (self w)) target"
    using fresh default by (simp add: compatible_def init_report_def)
  from marker obtain m where
    "priv_description_set (self w) = PNone
     \<or> version_marker E (priv_description_set (self w)) = Inr m"
    by blast
  from loads_compatible_returned [OF dec shape compat this, of ignore_config]
  show ?thesis using fresh by (simp add: init_report_def)
qed

lemma roundtrip_with_version_marker_example:
  "\<exists>target'.
     loads (example_env [([1], PList [PStr ''abc'', PConfig 5, description_of ''2.0'', PRoot 7,
                                      PStr ''Title''])] ''2.0'')
       [1] False (example_world init_report 0) = Returned target'
     \<and> priv_df_hash (self target') = PStr ''abc''
     \<and> priv_title (self target') = PStr ''Title''
     \<and> priv_description_set (self target') = description_of ''2.0''
     \<and> priv_report (self target') = PRoot 7"
proof -
  let ?E = "example_env [([1], PList [PStr ''abc'', PConfig 5, description_of ''2.0'', PRoot 7,
                                      PStr ''Title''])] ''2.0''"
  let ?w = "example_world (init_report\<lparr>df_hash := PStr ''abc'', priv_report := PRoot 7,
                                        priv_description_set := description_of ''2.0'',
                                        priv_title := PStr ''Title''\<rparr>) 5"
  have codec: "\<forall>v b. pickle_dumps ?E v = Inr b \<longrightarrow> pickle_loads ?E b = Inr v"
    by (simp add: example_env_def table_dumps_def table_loads_def)
  have marker: "priv_description_set (self ?w) = PNone
                 \<or> (isinstance_dict (priv_description_set (self ?w))
                    \<and> (\<exists>m. version_marker ?E (priv_description_set (self ?w)) = Inr m))"
    by (simp add: run_defs)
  have dumped: "dumps ?E ?w = Inr [1]" by (simp add: run_defs)
  from roundtrip_with_version_marker [of ?E ?w "[1]" "example_world init_report 0" False,
         OF codec _ _ _ marker dumped]
  show ?thesis by (simp add: example_env_def example_world_def init_report_def)
qed

text \<open>
  C1 says the round trip reproduces the four values for every report, whatever of its
  description set and report is \<^verbatim>\<open>None\<close>. The code misses a case: a report whose
  description set is a \<^verbatim>\<open>dict\<close> without the key \<^verbatim>\<open>"package"\<close> is dumped, and loading the
  bytes into a fresh report with the default configuration raises \<^verbatim>\<open>KeyError\<close> at the
  unguarded subscript of line 100. The description set, the report and the
  configuration were written by then; \<^verbatim>\<open>_df_hash\<close> and \<^verbatim>\<open>_title\<close> were not, so the hash
  \<^verbatim>\<open>"abc"\<close> and the title of the report that was dumped are not reproduced.
\<close>

theorem roundtrip_fails_without_marker:
  "dumps (example_env [([1], PList [PStr ''abc'', PConfig 5, PDict [], PRoot 7, PStr ''Title''])]
            ''2.0'')
     (example_world (init_report\<lparr>df_hash := PStr ''abc'', priv_report := PRoot 7,
                                  priv_description_set := PDict [],
                                  priv_title := PStr ''Title''\<rparr>) 5) = Inr [1]
   \<and> loads (example_env [([1], PList [PStr ''abc'', PConfig 5, PDict [], PRoot 7,
                                      PStr ''Title''])] ''2.0'')
        [1] False (example_world init_report 0)
      = Raised (KeyError ''package'')
          (example_world (init_report\<lparr>priv_report := PRoot 7,
                                       priv_description_set := PDict []\<rparr>) 5)"
  by (simp add: run_defs)

section \<open>C2: a snapshot of another dataset\<close>

text \<open>
  C2. The snapshot decodes and passes the shape checks, its hash is not the \<^verbatim>\<open>df_hash\<close> of
  the target, and the configuration is not the default one or the target has a
  dataset: \<^verbatim>\<open>loads\<close> raises the \<^verbatim>\<open>ValueError\<close> "DataFrame does not match with the current
  ProfileReport." and the state, the report and the configuration in it, is the one
  before the call.
\<close>

theorem loads_dataset_mismatch:
  assumes "decode E data = Inr (h, c, d, r, t)" and "shape_ok h c d r t"
    and "h \<noteq> df_hash (self w)"
    and "\<not> is_default E (config w) \<or> df (self w) \<noteq> PNone"
  shows "loads E data ignore_config w =
           Raised (ValueError ''DataFrame does not match with the current ProfileReport.'') w"
  using assms by (auto simp: loads_def compatible_def)

theorem loads_dataset_mismatch_witness:
  "loads (example_env [([2], PList [PStr ''xyz'', PConfig 5, description_of ''2.0'', PRoot 7,
                                    PStr ''Title''])] ''2.0'')
     [2] False (example_world (init_report\<lparr>df_hash := PStr ''abc''\<rparr>) 1)
   = Raised (ValueError ''DataFrame does not match with the current ProfileReport.'')
       (example_world (init_report\<lparr>df_hash := PStr ''abc''\<rparr>) 1)
   \<and> loads (example_env [([2], PList [PStr ''xyz'', PConfig 5, description_of ''2.0'', PRoot 7,
                                    PStr ''Title''])] ''2.0'')
     [2] False (example_world (init_report\<lparr>df_hash := PStr ''abc'', df := PObject ''DataFrame''\<rparr>) 0)
   = Raised (ValueError ''DataFrame does not match with the current ProfileReport.'')
       (example_world (init_report\<lparr>df_hash := PStr ''abc'', df := PObject ''DataFrame''\<rparr>) 0)"
proof -
  let ?E = "example_env [([2], PList [PStr ''xyz'', PConfig 5, description_of ''2.0'', PRoot 7,
                                    PStr ''Title''])] ''2.0''"
  have dec: "decode ?E [2] = Inr (PStr ''xyz'', PConfig 5, description_of ''2.0'', PRoot 7,
                                   PStr ''Title'')"
    by (simp add: run_defs)
  have shape: "shape_ok (PStr ''xyz'') (PConfig 5) (description_of ''2.0'') (PRoot 7)
                 (PStr ''Title'' :: (nat, nat) pyval)"
    by (simp add: run_defs)
  show ?thesis
    using loads_dataset_mismatch [OF dec shape,
            of "example_world (init_report\<lparr>df_hash := PStr ''abc''\<rparr>) 1" False]
          loads_dataset_mismatch [OF dec shape,
            of "example_world (init_report\<lparr>df_hash := PStr ''abc'', df := PObject ''DataFrame''\<rparr>) 0" False]
    by (simp add: example_env_def example_world_def init_report_def)
qed

section \<open>C3: the shape checks\<close>

text \<open>
  C3. The bytes decode into five values, and one of the five checks fails: the hash is
  neither \<^verbatim>\<open>None\<close> nor a string, the title is neither \<^verbatim>\<open>None\<close> nor a string, the
  configuration is no \<^verbatim>\<open>Config\<close>, the description set is neither \<^verbatim>\<open>None\<close> nor a \<^verbatim>\<open>dict\<close>, or
  the report is neither \<^verbatim>\<open>None\<close> nor a \<^verbatim>\<open>Root\<close>. Then \<^verbatim>\<open>loads\<close> raises the \<^verbatim>\<open>ValueError\<close>
  "Failed to load data: file may be damaged or from an incompatible version", whichever
  check it was, and the state is the one before the call.
\<close>

theorem loads_incompatible_format:
  assumes "decode E data = Inr (h, c, d, r, t)"
    and "\<not> ((h = PNone \<or> isinstance_str h) \<and> (t = PNone \<or> isinstance_str t)
            \<and> isinstance_Config c \<and> (d = PNone \<or> isinstance_dict d)
            \<and> (r = PNone \<or> isinstance_Root r))"
  shows "loads E data ignore_config w =
           Raised (ValueError
             ''Failed to load data: file may be damaged or from an incompatible version'') w"
  using assms by (auto simp: loads_def shape_ok_def)

theorem loads_incompatible_format_witness:
  "loads (example_env [([3], PTuple [PStr ''abc'', PConfig 5, PList [], PNone, PNone])] ''2.0'')
     [3] False (example_world init_report 0)
   = Raised (ValueError
       ''Failed to load data: file may be damaged or from an incompatible version'')
       (example_world init_report 0)"
proof -
  let ?E = "example_env [([3], PTuple [PStr ''abc'', PConfig 5, PList [], PNone, PNone])] ''2.0''"
  have dec: "decode ?E [3] = Inr (PStr ''abc'', PConfig 5, PList [], PNone, PNone)"
    by (simp add: run_defs)
  show ?thesis
    using loads_incompatible_format [OF dec, of False "example_world init_report 0"]
    by simp
qed

section \<open>C4: bytes that do not decode\<close>

text \<open>
  C4. When \<^verbatim>\<open>pickle.loads\<close> raises an exception \<open>e\<close>, or returns a value whose unpacking
  into five names raises \<open>e\<close>, \<^verbatim>\<open>loads\<close> raises one \<^verbatim>\<open>ValueError\<close> whose message is
  "Failed to load data: " followed by \<^verbatim>\<open>str(e)\<close>, and the state is the one before the
  call.
\<close>

theorem loads_decode_failure:
  assumes "pickle_loads E data = Inl e
           \<or> (\<exists>v. pickle_loads E data = Inr v \<and> unpack5 E v = Inl e)"
  shows "loads E data ignore_config w =
           Raised (ValueError (''Failed to load data: '' @ exc_str e)) w"
  using assms by (auto simp: loads_def decode_def)

theorem loads_decode_failure_witness:
  "loads (example_env [([4], PList [PNone, PConfig 5])] ''2.0'') [9] False
     (example_world init_report 0)
   = Raised (ValueError ''Failed to load data: invalid load key'') (example_world init_report 0)
   \<and> loads (example_env [([4], PList [PNone, PConfig 5])] ''2.0'') [4] False
       (example_world init_report 0)
     = Raised (ValueError
         ''Failed to load data: not enough values to unpack (expected 5, got 2)'')
         (example_world init_report 0)"
proof -
  let ?E = "example_env [([4], PList [PNone, PConfig 5])] ''2.0''"
  have a: "pickle_loads ?E [9] = Inl (OtherException ''UnpicklingError'' ''invalid load key'')
           \<or> (\<exists>v. pickle_loads ?E [9] = Inr v
                  \<and> unpack5 ?E v = Inl (OtherException ''UnpicklingError'' ''invalid load key''))"
    by (simp add: run_defs)
  have two: "char_of (50 :: nat) = CHR ''2''" by code_simp
  have b: "pickle_loads ?E [4] =
             Inl (ValueError ''not enough values to unpack (expected 5, got 2)'')
           \<or> (\<exists>v. pickle_loads ?E [4] = Inr v
                  \<and> unpack5 ?E v =
                      Inl (ValueError ''not enough values to unpack (expected 5, got 2)''))"
    by (simp add: run_defs two)
  show ?thesis
    using loads_decode_failure [OF a, of False "example_world init_report 0"]
          loads_decode_failure [OF b, of False "example_world init_report 0"]
    by simp
qed

section \<open>C5: the two fields are merged one by one\<close>



section \<open>C6: the hash and the title\<close>

text \<open>
  When the version test does not raise, \<^verbatim>\<open>_df_hash\<close> and \<^verbatim>\<open>_title\<close> are the loaded ones,
  whatever was kept of the description set and the report.
\<close>

lemma loads_sets_identity:
  assumes "decode E data = Inr (h, c, d, r, t)" and "shape_ok h c d r t" and "compatible E h w"
    and "d = PNone \<or> (\<exists>m. version_marker E d = Inr m)"
  shows "\<exists>w'. loads E data ignore_config w = Returned w'
              \<and> priv_df_hash (self w') = h \<and> priv_title (self w') = t"
proof -
  from assms(4) obtain m where "d = PNone \<or> version_marker E d = Inr m" by blast
  from loads_compatible_returned [OF assms(1-3) this, of ignore_config]
  show ?thesis by simp
qed

text \<open>
  C6 says the hash and the title are set in every load that is let in. The code sets
  them last (lines 109 and 110), after the version test: a snapshot whose description
  set is a \<^verbatim>\<open>dict\<close> without the key \<^verbatim>\<open>"package"\<close> passes the shape checks and is let in,
  the description set and the configuration are written, line 100 raises \<^verbatim>\<open>KeyError\<close>,
  and \<^verbatim>\<open>_df_hash\<close> and \<^verbatim>\<open>_title\<close> stay \<^verbatim>\<open>None\<close>.
\<close>

theorem identity_update_skipped:
  "loads (example_env [([10], PList [PStr ''xyz'', PConfig 5,
                                     PDict [(PStr ''table'', PDict [])], PNone,
                                     PStr ''Title''])] ''2.0'')
     [10] False (example_world init_report 0)
   = Raised (KeyError ''package'')
       (example_world (init_report\<lparr>priv_description_set :=
                                      PDict [(PStr ''table'', PDict [])]\<rparr>) 5)
   \<and> priv_df_hash (self (state_of
       (loads (example_env [([10], PList [PStr ''xyz'', PConfig 5,
                                          PDict [(PStr ''table'', PDict [])], PNone,
                                          PStr ''Title''])] ''2.0'')
          [10] False (example_world init_report 0)))) = PNone
   \<and> priv_title (self (state_of
       (loads (example_env [([10], PList [PStr ''xyz'', PConfig 5,
                                          PDict [(PStr ''table'', PDict [])], PNone,
                                          PStr ''Title''])] ''2.0'')
          [10] False (example_world init_report 0)))) = PNone"
  by (simp add: run_defs)

section \<open>C7: ignore_config\<close>

text \<open>
  C7. \<^verbatim>\<open>loads\<close> never reads \<^verbatim>\<open>ignore_config\<close>: with \<^verbatim>\<open>True\<close> and with \<^verbatim>\<open>False\<close> it gives the
  same outcome, the same exception or the same return, and the same state.
\<close>

theorem loads_ignores_ignore_config: "loads E data True w = loads E data False w"
  by (simp add: loads_def)

theorem loads_ignores_ignore_config_witness:
  "loads (example_env [([2], PList [PStr ''xyz'', PConfig 5, description_of ''2.0'', PRoot 7,
                                    PStr ''Title''])] ''2.0'')
     [2] True (example_world init_report 0)
   = loads (example_env [([2], PList [PStr ''xyz'', PConfig 5, description_of ''2.0'', PRoot 7,
                                    PStr ''Title''])] ''2.0'')
     [2] False (example_world init_report 0)"
  by (rule loads_ignores_ignore_config)

section \<open>C8: dump writes a .pp file\<close>

lemmas path_defs =
  Path_def splitroot_def path_name_def path_stem_def path_suffix_def path_str_def rfind_def
  path_repr_def with_suffix_def quoted_def

lemma with_suffix_pp:
  assumes "path_name p \<noteq> []"
  shows "with_suffix p ''.pp'' =
           Inr (p\<lparr>path_parts := butlast (path_parts p) @ [path_stem p @ ''.pp'']\<rparr>)"
proof -
  let ?name = "path_name p" and ?i = "rfind CHR ''.'' (path_name p)"
  show ?thesis
  proof (cases "0 < ?i \<and> ?i < int (length ?name) - 1")
    case True
    then have "length ?name - length (drop (nat ?i) ?name) = nat ?i" by auto
    moreover from True have "drop (nat ?i) ?name \<noteq> []" by auto
    ultimately show ?thesis using assms True
      by (simp add: with_suffix_def path_suffix_def path_stem_def Let_def)
  next
    case False
    then have "path_suffix p = []" and "path_stem p = ?name"
      by (auto simp: path_suffix_def path_stem_def Let_def)
    then show ?thesis using assms
      by (simp add: with_suffix_def Let_def)
  qed
qed

text \<open>
  C8 as stated fails for a path with no name: for \<^verbatim>\<open>""\<close> (the path \<^verbatim>\<open>.\<close>) and for
  \<^verbatim>\<open>/\<close>, \<^verbatim>\<open>with_suffix\<close> raises \<^verbatim>\<open>ValueError\<close>, nothing is written and the files are as
  they were.
\<close>

theorem dump_empty_name_counterexample:
  "dump (example_env [([1], PList [PNone, PConfig 0, PNone, PNone, PNone])] ''2.0'')
     [] (example_world init_report 0)
   = Raised (ValueError ''PosixPath('.') has an empty name'') (example_world init_report 0)
   \<and> dump (example_env [([1], PList [PNone, PConfig 0, PNone, PNone, PNone])] ''2.0'')
     ''/'' (example_world init_report 0)
   = Raised (ValueError ''PosixPath('/') has an empty name'') (example_world init_report 0)"
  by (simp add: dump_def path_defs)

text \<open>
  C8, amended. For every path whose last component is not empty, when \<^verbatim>\<open>dumps\<close> returns
  bytes, \<^verbatim>\<open>dump\<close> makes one write, of these bytes, to the path whose last component is the
  stem of the given one followed by \<^verbatim>\<open>.pp\<close>: the suffix, which is what follows the last
  dot of the name when that dot is neither its first nor its last character, is
  replaced, and a name with no suffix gets \<^verbatim>\<open>.pp\<close> appended. \<^verbatim>\<open>dump\<close> returns when the write
  returns, and raises the exception of the write when the write raises; the files are
  what this one write left, and nothing else of the state changes.
\<close>

theorem dump_writes_pp_file:
  assumes "path_name (Path output_file) \<noteq> []" and "dumps E w = Inr b"
  shows "dump E output_file w =
           (case write_bytes E (files w)
                   (path_str ((Path output_file)
                      \<lparr>path_parts := butlast (path_parts (Path output_file))
                                      @ [path_stem (Path output_file) @ ''.pp'']\<rparr>)) b of
              Returned fs \<Rightarrow> Returned (w\<lparr>files := fs\<rparr>)
            | Raised e fs \<Rightarrow> Raised e (w\<lparr>files := fs\<rparr>))"
  using assms by (simp add: dump_def with_suffix_pp)

text \<open>
  In a directory with no subdirectory, \<^verbatim>\<open>dump("report")\<close> and \<^verbatim>\<open>dump("report.json")\<close>
  both write \<^verbatim>\<open>report.pp\<close>, and no \<^verbatim>\<open>report.json\<close>; \<^verbatim>\<open>dump("out/report.tar.gz")\<close> tries
  \<^verbatim>\<open>out/report.tar.pp\<close> and raises \<^verbatim>\<open>FileNotFoundError\<close>, as there is no \<^verbatim>\<open>out\<close>.
\<close>

theorem dump_writes_pp_file_witness:
  "dump (example_env [([1], PList [PNone, PConfig 0, PNone, PNone, PNone])] ''2.0'')
     ''report'' (example_world init_report 0)
   = Returned ((example_world init_report 0)\<lparr>files := [''report.pp'' \<mapsto> [1]]\<rparr>)
   \<and> dump (example_env [([1], PList [PNone, PConfig 0, PNone, PNone, PNone])] ''2.0'')
     ''report.json'' (example_world init_report 0)
   = Returned ((example_world init_report 0)\<lparr>files := [''report.pp'' \<mapsto> [1]]\<rparr>)
   \<and> dump (example_env [([1], PList [PNone, PConfig 0, PNone, PNone, PNone])] ''2.0'')
     ''out/report.tar.gz'' (example_world init_report 0)
   = Raised (FileNotFoundError
       (''[Errno 2] No such file or directory: '' @ quoted ''out/report.tar.pp''))
       (example_world init_report 0)"
proof -
  let ?E = "example_env [([1], PList [PNone, PConfig 0, PNone, PNone, PNone])] ''2.0''"
  let ?w = "example_world init_report 0"
  have d: "dumps ?E ?w = Inr [1]" by (simp add: run_defs)
  have n1: "path_name (Path ''report'') \<noteq> []"
    and n2: "path_name (Path ''report.json'') \<noteq> []"
    and n3: "path_name (Path ''out/report.tar.gz'') \<noteq> []"
    by (simp_all add: path_defs)
  have p1: "path_str ((Path ''report'')
                \<lparr>path_parts := butlast (path_parts (Path ''report''))
                                @ [path_stem (Path ''report'') @ ''.pp'']\<rparr>) = ''report.pp''"
    by (simp add: path_defs)
  have p2: "path_str ((Path ''report.json'')
                \<lparr>path_parts := butlast (path_parts (Path ''report.json''))
                                @ [path_stem (Path ''report.json'') @ ''.pp'']\<rparr>) = ''report.pp''"
    by (simp add: path_defs)
  have p3: "path_str ((Path ''out/report.tar.gz'')
                \<lparr>path_parts := butlast (path_parts (Path ''out/report.tar.gz''))
                                @ [path_stem (Path ''out/report.tar.gz'') @ ''.pp'']\<rparr>)
             = ''out/report.tar.pp''"
    by (simp add: path_defs)
  have f: "files ?w = Map.empty" and wb: "write_bytes ?E = example_write"
    by (simp_all add: example_world_def example_env_def)
  from dump_writes_pp_file [OF n1 d] dump_writes_pp_file [OF n2 d] dump_writes_pp_file [OF n3 d]
  show ?thesis unfolding p1 p2 p3 f wb by (simp add: example_write_def example_world_def)
qed

section \<open>C9: the version warning\<close>




section \<open>C10: a description set without a version marker\<close>

text \<open>
  C10. A snapshot whose description set is a \<^verbatim>\<open>dict\<close> without the key \<^verbatim>\<open>"package"\<close>, or
  with a \<^verbatim>\<open>"package"\<close> that lacks \<^verbatim>\<open>"pandas_profiling_version"\<close>, decodes and passes the
  shape checks, and is let in by a fresh target. The subscript of line 100 raises
  \<^verbatim>\<open>KeyError\<close>, which is no \<^verbatim>\<open>ValueError\<close>, and in the state it leaves the description set,
  the report and the configuration are the loaded ones already.
\<close>

theorem version_lookup_fails_after_mutation:
  "decode (example_env [([11], PList [PNone, PConfig 5, PDict [], PRoot 7, PNone]),
                        ([12], PList [PNone, PConfig 5, PDict [(PStr ''package'', PDict [])],
                                      PRoot 7, PNone])] ''2.0'') [11]
     = Inr (PNone, PConfig 5, PDict [], PRoot 7, PNone)
   \<and> shape_ok PNone (PConfig 5) (PDict []) (PRoot 7) (PNone :: (nat, nat) pyval)
   \<and> shape_ok PNone (PConfig 5) (PDict [(PStr ''package'', PDict [])]) (PRoot 7)
        (PNone :: (nat, nat) pyval)
   \<and> loads (example_env [([11], PList [PNone, PConfig 5, PDict [], PRoot 7, PNone]),
                        ([12], PList [PNone, PConfig 5, PDict [(PStr ''package'', PDict [])],
                                      PRoot 7, PNone])] ''2.0'')
        [11] False (example_world init_report 0)
      = Raised (KeyError ''package'')
          (example_world (init_report\<lparr>priv_report := PRoot 7,
                                       priv_description_set := PDict []\<rparr>) 5)
   \<and> loads (example_env [([11], PList [PNone, PConfig 5, PDict [], PRoot 7, PNone]),
                        ([12], PList [PNone, PConfig 5, PDict [(PStr ''package'', PDict [])],
                                      PRoot 7, PNone])] ''2.0'')
        [12] False (example_world init_report 0)
      = Raised (KeyError ''pandas_profiling_version'')
          (example_world (init_report\<lparr>priv_report := PRoot 7,
                                       priv_description_set :=
                                         PDict [(PStr ''package'', PDict [])]\<rparr>) 5)"
  by (simp add: run_defs)

end
